theory Spec2Isabelle
  imports Complex_Main
begin

section \<open>The planner data model (usePlannerData.ts)\<close>

text \<open>
  The hook \<^verbatim>\<open>usePlannerData\<close> keeps two arrays, \<^verbatim>\<open>editors\<close> and \<^verbatim>\<open>jobs\<close>, and
  exposes the operations that read and update them. The interfaces \<^verbatim>\<open>Job\<close> and
  \<^verbatim>\<open>Editor\<close> become records. The field \<^verbatim>\<open>id\<close> of either interface is named
  \<open>job_id\<close> and \<open>ed_id\<close> here (and \<^verbatim>\<open>name\<close> is \<open>ed_name\<close>), since \<open>id\<close> is the
  identity function of HOL.

  JavaScript numbers: \<^verbatim>\<open>scheduledDate\<close> and \<^verbatim>\<open>order\<close> are integer columns of the
  backend table and are modelled as \<open>int\<close> (far below \<open>2 ^ 53\<close>, where \<^verbatim>\<open>+ 1\<close> and
  \<^verbatim>\<open>- 1\<close> are exact). \<^verbatim>\<open>estimatedHours\<close> and \<^verbatim>\<open>weeklyCapacity\<close> may be fractional:
  they are finite doubles, modelled as the rational number they denote.
\<close>

datatype Priority = Low | Medium | High

datatype Status = Queued | InProgress | Review

record Job =
  job_id :: string
  title :: string
  clientName :: string
  editorId :: string
  scheduledDate :: int
  weekStart :: string
  estimatedHours :: rat
  priority :: Priority
  status :: Status
  order :: int

record Editor =
  ed_id :: string
  ed_name :: string
  weeklyCapacity :: rat

section \<open>moveJob: the state update\<close>

text \<open>
  \<^verbatim>\<open>moveJob\<close> passes an updater to \<^verbatim>\<open>setJobs\<close>; the updater is the function below, from
  the previous job array to the next one. \<^verbatim>\<open>prev.findIndex\<close> followed by
  \<^verbatim>\<open>prev[jobIndex]\<close> is \<open>find\<close>: the first job with the given id. The body of
  \<^verbatim>\<open>prev.map\<close> is \<open>moveJob_map\<close>.
\<close>

definition moveJob_map :: "Job \<Rightarrow> string \<Rightarrow> string \<Rightarrow> int \<Rightarrow> int \<Rightarrow> Job \<Rightarrow> Job" where
  "moveJob_map job jobId newEditorId newDayIndex newOrder j =
     (let wasInSameCell = (editorId job = newEditorId \<and> scheduledDate job = newDayIndex) in
      if job_id j = jobId then
        j\<lparr>editorId := newEditorId, scheduledDate := newDayIndex, order := newOrder\<rparr>
      else if editorId j = newEditorId \<and> scheduledDate j = newDayIndex
              \<and> weekStart j = weekStart job \<and> job_id j \<noteq> jobId then
        (if wasInSameCell then
           (let oldOrder = order job in
            if newOrder > oldOrder \<and> order j > oldOrder \<and> order j \<le> newOrder then
              j\<lparr>order := order j - 1\<rparr>
            else if newOrder < oldOrder \<and> order j \<ge> newOrder \<and> order j < oldOrder then
              j\<lparr>order := order j + 1\<rparr>
            else j)
         else
           (if order j \<ge> newOrder then j\<lparr>order := order j + 1\<rparr> else j))
      else j)"

definition moveJob :: "Job list \<Rightarrow> string \<Rightarrow> string \<Rightarrow> int \<Rightarrow> int \<Rightarrow> Job list" where
  "moveJob prev jobId newEditorId newDayIndex newOrder =
     (case find (\<lambda>j. job_id j = jobId) prev of
        None \<Rightarrow> prev
      | Some job \<Rightarrow> map (moveJob_map job jobId newEditorId newDayIndex newOrder) prev)"


text \<open>
  After returning the new array the updater starts one background request that writes
  the moved job's \<^verbatim>\<open>editor_id\<close>, \<^verbatim>\<open>scheduled_date\<close> and \<^verbatim>\<open>order\<close> to the backend; its
  failure is caught and logged. That request reads and writes no local state, and it is
  not started when the job id is unknown, so the state update above is all of
  \<^verbatim>\<open>moveJob\<close> that the job array sees.
\<close>

subsection \<open>Cells\<close>

text \<open>
  A cell is the triple of editor, day index and week start; \<open>cellJobs\<close> selects the
  jobs of a cell. \<open>destCell\<close> is the destination cell of a move as the code tests it:
  destination editor and day, and the week of the moved job (no cell when the
  job id is unknown). \<open>shift_gap\<close> is the renumbering of a cell's positions by a move
  from position \<open>oldOrder\<close> to position \<open>destOrder\<close>.
\<close>

definition inCell :: "string \<Rightarrow> int \<Rightarrow> string \<Rightarrow> Job \<Rightarrow> bool" where
  "inCell e d w j \<longleftrightarrow> editorId j = e \<and> scheduledDate j = d \<and> weekStart j = w"

definition cellJobs :: "string \<Rightarrow> int \<Rightarrow> string \<Rightarrow> Job list \<Rightarrow> Job list" where
  "cellJobs e d w js = filter (inCell e d w) js"

definition destCell :: "Job list \<Rightarrow> string \<Rightarrow> string \<Rightarrow> int \<Rightarrow> Job \<Rightarrow> bool" where
  "destCell prev jobId newEditorId newDayIndex j =
     (case find (\<lambda>x. job_id x = jobId) prev of
        None \<Rightarrow> False
      | Some job \<Rightarrow> inCell newEditorId newDayIndex (weekStart job) j)"

definition shift_gap :: "int \<Rightarrow> int \<Rightarrow> int \<Rightarrow> int" where
  "shift_gap oldOrder destOrder k =
     (if k = oldOrder then destOrder
      else if destOrder > oldOrder \<and> oldOrder < k \<and> k \<le> destOrder then k - 1
      else if destOrder < oldOrder \<and> destOrder \<le> k \<and> k < oldOrder then k + 1
      else k)"

section \<open>The planner state and the backend\<close>

text \<open>
  The state of the hook that the operations below read and write. \<^verbatim>\<open>currentWeekStartStr\<close>
  is the formatted \<^verbatim>\<open>currentWeekStart\<close>. The signed-in user comes from \<^verbatim>\<open>useAuth\<close> and
  is a parameter of every operation that reads it: \<open>None\<close> is \<^verbatim>\<open>null\<close>, \<open>Some uid\<close> a
  user with that id.
\<close>

record planner =
  editors :: "Editor list"
  jobs :: "Job list"
  loading :: bool
  currentWeekStartStr :: string

text \<open>
  A request to the backend client is awaited and has three outcomes: the promise is
  rejected (the \<^verbatim>\<open>await\<close> throws), it resolves to \<^verbatim>\<open>{ data: null, error }\<close>, or it resolves
  to \<^verbatim>\<open>{ data, error: null }\<close>. The text carried by the first two is the error's
  \<^verbatim>\<open>message\<close>. Rows arrive already converted to \<^verbatim>\<open>Editor\<close> and \<^verbatim>\<open>Job\<close> values (the
  conversion in the source only renames fields).
\<close>

datatype 'a reply = Rejects string | Reply_error string | Reply_data 'a

record backend =
  fetch_editors :: "Editor list reply"
  fetch_week_jobs :: "Job list reply"
  fetch_all_jobs :: "Job list reply"

record dbEditor =
  user_id :: string
  name :: string
  weekly_capacity :: rat

text \<open>What an operation does besides updating the state, in the order it does it.\<close>

datatype effect =
    Select_profile
  | Insert_editor dbEditor
  | Delete_editor string
  | Console_error string
  | Toast_success string
  | Toast_error string

text \<open>
  Thrown values: \<open>Error m\<close> is the object made by \<^verbatim>\<open>new Error(m)\<close> in the source,
  \<open>Backend_error m\<close> an error object that came from the backend client with message
  \<open>m\<close>.
\<close>

datatype thrown = Error string | Backend_error string

fun message :: "thrown \<Rightarrow> string" where
  "message (Error m) = m"
| "message (Backend_error m) = m"

datatype 'a outcome = Returned 'a | Threw thrown

subsection \<open>fetchData\<close>

text \<open>
  Without a user both arrays are emptied. With a user the three requests are awaited one
  after the other; a rejected request, or an error in the reply to the editors or to the
  all-jobs request, ends in the \<^verbatim>\<open>catch\<close> (log and toast), the editors staying replaced
  when they had been. The reply to the week's jobs is not used, its error included.
  \<^verbatim>\<open>loading\<close> is set on entry and cleared by \<^verbatim>\<open>finally\<close>; the model gives the state
  at the end of the call.
\<close>

definition fetchData_failed :: "planner \<Rightarrow> planner \<times> effect list" where
  "fetchData_failed st =
     (st\<lparr>loading := False\<rparr>,
      [Console_error ''Error fetching data:'', Toast_error ''Failed to load planner data''])"

definition fetchData :: "string option \<Rightarrow> backend \<Rightarrow> planner \<Rightarrow> planner \<times> effect list" where
  "fetchData user be st =
     (case user of
        None \<Rightarrow> (st\<lparr>editors := [], jobs := [], loading := False\<rparr>, [])
      | Some uid \<Rightarrow>
          (case fetch_editors be of
             Reply_data formattedEditors \<Rightarrow>
               (let st1 = st\<lparr>editors := formattedEditors\<rparr> in
                case fetch_week_jobs be of
                  Rejects m \<Rightarrow> fetchData_failed st1
                | _ \<Rightarrow>
                   (case fetch_all_jobs be of
                      Reply_data formattedJobs \<Rightarrow>
                        (st1\<lparr>jobs := formattedJobs, loading := False\<rparr>, [])
                    | _ \<Rightarrow> fetchData_failed st1))
           | _ \<Rightarrow> fetchData_failed st))"

subsection \<open>addEditor\<close>

record NewEditor =
  new_name :: string
  new_weeklyCapacity :: rat

record addEditor_result =
  outcome :: "Editor option outcome"
  result_state :: planner
  effects :: "effect list"

text \<open>
  \<open>Returned None\<close> is the bare \<^verbatim>\<open>return\<close> of the guard on the user. The profile
  request sits in its own \<^verbatim>\<open>try\<close> whose \<^verbatim>\<open>catch\<close> is empty, and \<^verbatim>\<open>planType\<close> is
  overwritten only when a profile row came back. The outer \<^verbatim>\<open>catch\<close> rethrows what it
  caught; it logs and shows a toast unless the message is \<^verbatim>\<open>PLAN_LIMIT_REACHED\<close>.

  The function reads two editor arrays. The limit is checked against \<^verbatim>\<open>editors\<close>, the
  array that the callback captured from the render that made it (\<^verbatim>\<open>useCallback\<close> with
  the dependencies \<^verbatim>\<open>[editors, user]\<close>): the parameter \<open>editors'\<close>. The new editor is
  appended by \<^verbatim>\<open>setEditors(prev => [...prev, newEditor])\<close> to the live array, that of
  the state \<open>st\<close>. The two are the same array when the callback is the one of the
  current render; a callback kept from an earlier render has an older one.
\<close>

definition planType_of :: "string reply \<Rightarrow> string" where
  "planType_of profile_reply =
     (case profile_reply of Reply_data plan_type \<Rightarrow> plan_type | _ \<Rightarrow> ''free'')"

definition plan_limit :: "string \<Rightarrow> nat" where
  "plan_limit planType = (if planType = ''pro'' then 10 else 2)"

definition addEditor_catch :: "thrown \<Rightarrow> planner \<Rightarrow> effect list \<Rightarrow> addEditor_result" where
  "addEditor_catch error st fx =
     (if message error = ''PLAN_LIMIT_REACHED'' then
        \<lparr>outcome = Threw error, result_state = st, effects = fx\<rparr>
      else
        \<lparr>outcome = Threw error, result_state = st,
         effects = fx @ [Console_error ''Error adding editor:'',
                         Toast_error (if message error = [] then ''Failed to add editor''
                                      else message error)]\<rparr>)"

definition addEditor ::
  "string option \<Rightarrow> Editor list \<Rightarrow> string reply \<Rightarrow> Editor reply \<Rightarrow> NewEditor \<Rightarrow> planner
     \<Rightarrow> addEditor_result" where
  "addEditor user editors' profile_reply insert_reply editor st =
     (case user of
        None \<Rightarrow> \<lparr>outcome = Returned None, result_state = st, effects = []\<rparr>
      | Some uid \<Rightarrow>
          (let planType = planType_of profile_reply;
               limit = plan_limit planType
           in if length editors' \<ge> limit then
                addEditor_catch (Error ''PLAN_LIMIT_REACHED'') st [Select_profile]
              else
                (let dbEditor = \<lparr>user_id = uid, name = new_name editor,
                                 weekly_capacity = new_weeklyCapacity editor\<rparr>;
                     fx = [Select_profile, Insert_editor dbEditor]
                 in case insert_reply of
                      Rejects m \<Rightarrow> addEditor_catch (Backend_error m) st fx
                    | Reply_error m \<Rightarrow> addEditor_catch (Backend_error m) st fx
                    | Reply_data newEditor \<Rightarrow>
                        \<lparr>outcome = Returned (Some newEditor),
                         result_state = st\<lparr>editors := editors st @ [newEditor]\<rparr>,
                         effects = fx @ [Toast_success ''Editor added'']\<rparr>)))"

subsection \<open>deleteEditor\<close>

text \<open>
  The editor is filtered out of the local array first. Only a rejected request reaches
  the \<^verbatim>\<open>catch\<close>, which logs and calls \<^verbatim>\<open>fetchData\<close>; a reply that carries an error
  is not inspected and ends in the success toast. The call of \<^verbatim>\<open>fetchData\<close> is not
  awaited: the state of the model in that branch is the one reached when the reload it
  starts has finished.
\<close>

definition deleteEditor ::
  "string option \<Rightarrow> backend \<Rightarrow> unit reply \<Rightarrow> string \<Rightarrow> planner \<Rightarrow> planner \<times> effect list" where
  "deleteEditor user be delete_reply editorId' st =
     (let st1 = st\<lparr>editors := filter (\<lambda>editor. ed_id editor \<noteq> editorId') (editors st)\<rparr> in
      case delete_reply of
        Rejects m \<Rightarrow>
          (let (st2, fx) = fetchData user be st1
           in (st2, [Delete_editor editorId', Console_error ''Delete editor failed''] @ fx))
      | _ \<Rightarrow> (st1, [Delete_editor editorId', Toast_success ''Editor deleted'']))"


section \<open>getEditorCapacity\<close>

subsection \<open>Double arithmetic\<close>

text \<open>
  \<^verbatim>\<open>estimatedHours\<close>, \<^verbatim>\<open>weeklyCapacity\<close> and everything computed from them are IEEE 754
  doubles. A finite double is modelled as the rational number it denotes, and every
  arithmetic operation of the source as the exact operation followed by \<open>fl\<close>, rounding
  to the nearest double, ties to the even significand: for \<open>2 ^ e \<le> \<bar>x\<bar> < 2 ^ (e + 1)\<close>
  the doubles around \<open>x\<close> are the multiples of \<open>2 ^ (e - 52)\<close>, and of \<open>2 ^ - 1074\<close> in
  the subnormal range. Overflow is left out: the model is that of the source as long as
  every result stays below \<open>2 ^ 1024\<close> in magnitude, and the values \<^verbatim>\<open>NaN\<close> and
  \<^verbatim>\<open>Infinity\<close>, which no backend row carries, do not occur.

  \<open>floor_log2 n\<close> is the position of the leading bit of a positive integer, \<open>ilog2 x\<close>
  the binary exponent \<open>e\<close> of a positive rational.
\<close>

definition pow2 :: "int \<Rightarrow> rat" where
  "pow2 k = (if k \<ge> 0 then 2 ^ nat k else 1 / 2 ^ nat (- k))"

function floor_log2 :: "int \<Rightarrow> int" where
  "floor_log2 n = (if n \<le> 1 then 0 else 1 + floor_log2 (n div 2))"
  by pat_completeness auto
termination
  by (relation "measure nat") auto

definition ilog2 :: "rat \<Rightarrow> int" where
  "ilog2 x = (let (p, q) = quotient_of x;
                  k = floor_log2 p - floor_log2 q
              in if pow2 k \<le> x then k else k - 1)"

definition round_ties_even :: "rat \<Rightarrow> int" where
  "round_ties_even y =
     (let f = \<lfloor>y\<rfloor>; r = y - of_int f in
      if r < 1 / 2 then f else if r > 1 / 2 then f + 1 else if even f then f else f + 1)"

definition fl :: "rat \<Rightarrow> rat" where
  "fl x = (if x = 0 then 0 else
     let e = ilog2 \<bar>x\<bar>; q = max (e - 52) (- 1074)
     in of_int (round_ties_even (x / pow2 q)) * pow2 q)"

definition dbl_add :: "rat \<Rightarrow> rat \<Rightarrow> rat" where
  "dbl_add a b = fl (a + b)"

definition dbl_div :: "rat \<Rightarrow> rat \<Rightarrow> rat" where
  "dbl_div a b = fl (a / b)"

definition dbl_mul :: "rat \<Rightarrow> rat \<Rightarrow> rat" where
  "dbl_mul a b = fl (a * b)"

text \<open>
  \<^verbatim>\<open>Math.round\<close> returns the nearest integer, a tie going up; it is exact on doubles.
\<close>

definition Math_round :: "rat \<Rightarrow> int" where
  "Math_round x = \<lfloor>x + 1 / 2\<rfloor>"

subsection \<open>The function\<close>

text \<open>
  The three local constants of the source and its result. \<^verbatim>\<open>reduce\<close> adds from the left,
  starting from 0. \<^verbatim>\<open>editor?.weeklyCapacity || 40\<close> is 40 when no editor has the id and
  when the capacity is 0, the one falsy number that the model has; the divisor is
  therefore never 0.
\<close>

definition gec_editorJobs :: "planner \<Rightarrow> string \<Rightarrow> Job list" where
  "gec_editorJobs st editorId' =
     filter (\<lambda>job. editorId job = editorId' \<and> weekStart job = currentWeekStartStr st) (jobs st)"

definition gec_totalHours :: "planner \<Rightarrow> string \<Rightarrow> rat" where
  "gec_totalHours st editorId' =
     foldl (\<lambda>sum job. dbl_add sum (estimatedHours job)) 0 (gec_editorJobs st editorId')"

definition gec_weeklyCapacity :: "planner \<Rightarrow> string \<Rightarrow> rat" where
  "gec_weeklyCapacity st editorId' =
     (case find (\<lambda>e. ed_id e = editorId') (editors st) of
        None \<Rightarrow> 40
      | Some editor \<Rightarrow> if weeklyCapacity editor = 0 then 40 else weeklyCapacity editor)"

definition getEditorCapacity :: "planner \<Rightarrow> string \<Rightarrow> int" where
  "getEditorCapacity st editorId' =
     min 100 (Math_round (dbl_mul (dbl_div (gec_totalHours st editorId')
                                           (gec_weeklyCapacity st editorId')) 100))"

subsection \<open>The formula of the specification\<close>

text \<open>
  The specification's words, to compare with the function: the weekly load percentage
  is \<^verbatim>\<open>round(min(100, 100 * sum(estimatedHours of that editor's jobs this week) /
  weeklyCapacity))\<close>, the capacity being the editor's, or 40 if absent. The formula is
  read over the rational numbers, with the rounding of its own example
  (\<^verbatim>\<open>round(100*25/40)\<close> is 63).
\<close>

definition spec_weeklyCapacity :: "planner \<Rightarrow> string \<Rightarrow> rat" where
  "spec_weeklyCapacity st editorId' =
     (case find (\<lambda>e. ed_id e = editorId') (editors st) of
        None \<Rightarrow> 40
      | Some editor \<Rightarrow> weeklyCapacity editor)"

definition spec_capacity :: "planner \<Rightarrow> string \<Rightarrow> int" where
  "spec_capacity st editorId' =
     round (min 100 (100 * sum_list (map estimatedHours (gec_editorJobs st editorId'))
                       / spec_weeklyCapacity st editorId'))"

section \<open>Example data\<close>

definition mk_job :: "string \<Rightarrow> string \<Rightarrow> int \<Rightarrow> string \<Rightarrow> rat \<Rightarrow> int \<Rightarrow> Job" where
  "mk_job i e d w h k =
     \<lparr>job_id = i, title = ''Trailer cut'', clientName = ''Acme'', editorId = e,
      scheduledDate = d, weekStart = w, estimatedHours = h, priority = Medium,
      status = Queued, order = k\<rparr>"

text \<open>A cell of four jobs at positions 0 to 3, and a second cell of two jobs.\<close>

definition cell_A :: "Job list" where
  "cell_A = [mk_job ''a0'' ''ed1'' 0 ''2024-01-01'' 2 0,
             mk_job ''a1'' ''ed1'' 0 ''2024-01-01'' 3 1,
             mk_job ''a2'' ''ed1'' 0 ''2024-01-01'' 4 2,
             mk_job ''a3'' ''ed1'' 0 ''2024-01-01'' 5 3]"

definition cell_B :: "Job list" where
  "cell_B = [mk_job ''b0'' ''ed2'' 4 ''2024-01-01'' 1 0,
             mk_job ''b1'' ''ed2'' 4 ''2024-01-01'' 6 1]"

text \<open>A job of another week at the place of \<open>cell_B\<close>.\<close>

definition other_week :: "Job list" where
  "other_week = [mk_job ''c0'' ''ed2'' 4 ''2024-01-08'' 7 0]"

definition two_editors :: "Editor list" where
  "two_editors = [\<lparr>ed_id = ''ed1'', ed_name = ''Ada'', weeklyCapacity = 40\<rparr>,
                  \<lparr>ed_id = ''ed2'', ed_name = ''Bo'', weeklyCapacity = 40\<rparr>]"

definition one_editor :: "Editor list" where
  "one_editor = [\<lparr>ed_id = ''ed1'', ed_name = ''Ada'', weeklyCapacity = 40\<rparr>]"

definition board :: planner where
  "board = \<lparr>editors = two_editors, jobs = cell_A @ cell_B @ other_week, loading = False,
            currentWeekStartStr = ''2024-01-01''\<rparr>"

text \<open>One editor of capacity 40 with jobs of 10 and 15 hours, and with one job of 23 hours.\<close>

definition hours_10_15 :: planner where
  "hours_10_15 =
     \<lparr>editors = [\<lparr>ed_id = ''ed1'', ed_name = ''Ada'', weeklyCapacity = 40\<rparr>],
      jobs = [mk_job ''h1'' ''ed1'' 0 ''2024-01-01'' 10 0,
              mk_job ''h2'' ''ed1'' 1 ''2024-01-01'' 15 0],
      loading = False, currentWeekStartStr = ''2024-01-01''\<rparr>"

definition hours_23 :: planner where
  "hours_23 =
     \<lparr>editors = [\<lparr>ed_id = ''ed1'', ed_name = ''Ada'', weeklyCapacity = 40\<rparr>],
      jobs = [mk_job ''h1'' ''ed1'' 0 ''2024-01-01'' 23 0],
      loading = False, currentWeekStartStr = ''2024-01-01''\<rparr>"

text \<open>A third editor to add, and the row the backend would return for it.\<close>

definition third_editor :: NewEditor where
  "third_editor = \<lparr>new_name = ''Cy'', new_weeklyCapacity = 32\<rparr>"

definition third_row :: Editor where
  "third_row = \<lparr>ed_id = ''ed3'', ed_name = ''Cy'', weeklyCapacity = 32\<rparr>"

text \<open>
  The board after \<^verbatim>\<open>reassignEditorJobs('ed2', 'ed1')\<close> has updated the local array,
  and a backend that still holds the rows of \<open>board\<close>.
\<close>

definition reassigned_board :: planner where
  "reassigned_board =
     board\<lparr>jobs := map (\<lambda>job. if editorId job = ''ed2'' then job\<lparr>editorId := ''ed1''\<rparr> else job)
                       (jobs board)\<rparr>"

definition board_backend :: backend where
  "board_backend =
     \<lparr>fetch_editors = Reply_data two_editors, fetch_week_jobs = Reply_data (cell_A @ cell_B),
      fetch_all_jobs = Reply_data (jobs board)\<rparr>"

section \<open>Auxiliary facts\<close>

lemmas example_defs =
  board_def cell_A_def cell_B_def other_week_def two_editors_def mk_job_def

lemma find_first_id:
  "distinct (map job_id js) \<Longrightarrow> j \<in> set js \<Longrightarrow> find (\<lambda>x. job_id x = job_id j) js = Some j"
proof (induction js)
  case Nil then show ?case by simp
next
  case (Cons a js)
  then show ?case by (auto simp: image_iff)
qed

lemma same_id_same_job:
  "distinct (map job_id js) \<Longrightarrow> x \<in> set js \<Longrightarrow> y \<in> set js \<Longrightarrow> job_id x = job_id y \<Longrightarrow> x = y"
  by (meson distinct_map inj_onD)

lemma moveJob_found:
  "find (\<lambda>j. job_id j = jobId) prev = Some job \<Longrightarrow>
   moveJob prev jobId e d n = map (moveJob_map job jobId e d n) prev"
  by (simp add: moveJob_def)

lemma moveJob_length: "length (moveJob prev jobId e d n) = length prev"
  by (simp add: moveJob_def split: option.split)

lemma moveJob_nth:
  "find (\<lambda>j. job_id j = jobId) prev = Some job \<Longrightarrow> i < length prev \<Longrightarrow>
   moveJob prev jobId e d n ! i = moveJob_map job jobId e d n (prev ! i)"
  by (simp add: moveJob_def)

lemma shift_gap_range:
  assumes "0 \<le> a" "a < n" "0 \<le> b" "b < n"
  shows "shift_gap a b ` {0..<n} = {0..<n}"
proof
  show "shift_gap a b ` {0..<n} \<subseteq> {0..<n}"
    using assms by (auto simp: shift_gap_def)
  show "{0..<n} \<subseteq> shift_gap a b ` {0..<n}"
  proof
    fix k assume k: "k \<in> {0..<n}"
    define p where "p = (if k = b then a
                         else if b > a \<and> a \<le> k \<and> k < b then k + 1
                         else if b < a \<and> b < k \<and> k \<le> a then k - 1 else k)"
    have "shift_gap a b p = k" "p \<in> {0..<n}"
      using assms k by (auto simp: shift_gap_def p_def)
    then show "k \<in> shift_gap a b ` {0..<n}" by (metis imageI)
  qed
qed

lemma shift_gap_inj: "inj (shift_gap a b)"
  unfolding inj_def shift_gap_def by (auto split: if_splits)

lemma moveJob_map_inCell_same:
  assumes "distinct (map job_id prev)" "job \<in> set prev" "x \<in> set prev"
  shows "inCell (editorId job) (scheduledDate job) (weekStart job)
           (moveJob_map job (job_id job) (editorId job) (scheduledDate job) n x)
         \<longleftrightarrow> inCell (editorId job) (scheduledDate job) (weekStart job) x"
proof (cases "job_id x = job_id job")
  case True
  then have "x = job" using assms by (meson same_id_same_job)
  then show ?thesis by (simp add: moveJob_map_def inCell_def)
next
  case False
  then show ?thesis by (simp add: moveJob_map_def inCell_def Let_def)
qed

lemma moveJob_map_order_same:
  assumes "distinct (map job_id prev)" "job \<in> set prev" "x \<in> set prev"
    and "inCell (editorId job) (scheduledDate job) (weekStart job) x"
    and "inj_on order (set (cellJobs (editorId job) (scheduledDate job) (weekStart job) prev))"
  shows "order (moveJob_map job (job_id job) (editorId job) (scheduledDate job) n x)
         = shift_gap (order job) n (order x)"
proof (cases "job_id x = job_id job")
  case True
  then have "x = job" using assms by (meson same_id_same_job)
  then show ?thesis by (simp add: moveJob_map_def shift_gap_def)
next
  case False
  have "x \<in> set (cellJobs (editorId job) (scheduledDate job) (weekStart job) prev)"
    "job \<in> set (cellJobs (editorId job) (scheduledDate job) (weekStart job) prev)"
    using assms by (simp_all add: cellJobs_def inCell_def)
  with assms(5) False have "order x \<noteq> order job"
    by (metis inj_onD)
  with False assms(4) show ?thesis
    by (simp add: moveJob_map_def shift_gap_def inCell_def Let_def)
qed

lemma set_range_distinct:
  assumes "set xs = {0..<int (length xs)}"
  shows "distinct xs"
proof -
  have "card (set xs) = length xs" using assms by simp
  then show ?thesis by (rule card_distinct)
qed

lemma Math_round_min: "min 100 (Math_round x) = round (min 100 x)"
proof (cases "x \<le> 100")
  case True
  then have "\<lfloor>x + 1 / 2\<rfloor> \<le> 100" by linarith
  moreover have "min 100 x = x" using True by simp
  ultimately show ?thesis by (simp add: Math_round_def round_def)
next
  case False
  then have "100 \<le> \<lfloor>x + 1 / 2\<rfloor>" by linarith
  moreover have "min 100 x = 100" using False by simp
  moreover have "round (100::rat) = 100" unfolding round_def by linarith
  ultimately show ?thesis by (simp add: Math_round_def)
qed

text \<open>
  Two well-known doubles, as a check of \<open>fl\<close>: the double nearest to one tenth, and the
  sum of the doubles of 0.1 and 0.2, which is not the double of 0.3.
\<close>

lemma fl_one_tenth: "fl (1 / 10) = 3602879701896397 / 36028797018963968"
  by code_simp

lemma dbl_add_tenths: "dbl_add (fl (1 / 10)) (fl (2 / 10)) = fl (3 / 10) + 1 / 2 ^ 54"
  by code_simp

section \<open>Properties of moveJob\<close>

text \<open>
  \<^bold>\<open>C1\<close> (reordering inside a cell keeps the positions contiguous). Let the job ids of the
  collection be distinct, as identifiers are, let \<open>job\<close> be a job of the collection and
  \<open>C\<close> the jobs of its cell, with positions exactly \<open>0, \<dots>, n - 1\<close> for \<open>n\<close> the number
  of jobs of the cell. After moving \<open>job\<close> to a position \<open>destOrder\<close> between \<open>0\<close> and
  \<open>n - 1\<close> of its own cell, the cell has the same number of jobs, their positions are
  again exactly \<open>0, \<dots>, n - 1\<close>, and no two jobs share a position.
\<close>

theorem moveJob_same_cell_contiguous:
  assumes ids: "distinct (map job_id prev)"
    and mem: "job \<in> set prev"
    and C: "C = cellJobs (editorId job) (scheduledDate job) (weekStart job) prev"
    and orders: "set (map order C) = {0..<int (length C)}"
    and lo: "0 \<le> destOrder" and hi: "destOrder \<le> int (length C) - 1"
    and C': "C' = cellJobs (editorId job) (scheduledDate job) (weekStart job)
                    (moveJob prev (job_id job) (editorId job) (scheduledDate job) destOrder)"
  shows "length C' = length C \<and> set (map order C') = {0..<int (length C)} \<and> distinct (map order C')"
proof -
  let ?f = "moveJob_map job (job_id job) (editorId job) (scheduledDate job) destOrder"
  let ?cell = "inCell (editorId job) (scheduledDate job) (weekStart job)"
  let ?g = "shift_gap (order job) destOrder"
  have found: "find (\<lambda>j. job_id j = job_id job) prev = Some job"
    using ids mem by (rule find_first_id)
  have nxt: "moveJob prev (job_id job) (editorId job) (scheduledDate job) destOrder = map ?f prev"
    using found by (rule moveJob_found)
  have "filter ?cell (map ?f prev) = map ?f (filter ?cell prev)"
    unfolding filter_map o_def
    using moveJob_map_inCell_same [OF ids mem] by (metis (mono_tags, lifting) filter_cong)
  then have C'_map: "C' = map ?f C"
    by (simp add: C C' nxt cellJobs_def)
  have dist: "distinct (map order C)"
    using orders by (metis length_map set_range_distinct)
  then have inj: "inj_on order (set C)"
    by (simp add: distinct_map)
  have "order (?f x) = ?g (order x)" if "x \<in> set C" for x
  proof -
    from that have "x \<in> set prev" "?cell x" by (simp_all add: C cellJobs_def)
    then show ?thesis
      using moveJob_map_order_same [OF ids mem] inj C by blast
  qed
  then have orders': "map order C' = map ?g (map order C)"
    by (simp add: C'_map)
  have "job \<in> set C" using mem by (simp add: C cellJobs_def inCell_def)
  then have "order job \<in> set (map order C)" by simp
  then have old: "0 \<le> order job" "order job < int (length C)"
    using orders by simp_all
  have "set (map order C') = ?g ` {0..<int (length C)}"
    using orders' orders by (metis set_map)
  also have "\<dots> = {0..<int (length C)}"
    using old lo hi by (intro shift_gap_range) simp_all
  finally have range: "set (map order C') = {0..<int (length C)}" .
  have "distinct (map order C')"
    unfolding orders' using dist
    by (simp add: distinct_map inj_on_subset [OF shift_gap_inj] del: map_map)
  with range C'_map show ?thesis by simp
qed

text \<open>
  The four jobs of \<open>cell_A\<close> on the board, the last of them moved to the front.
\<close>

theorem moveJob_same_cell_contiguous_witness:
  "distinct (map job_id (jobs board))
   \<and> set (map order (cellJobs ''ed1'' 0 ''2024-01-01'' (jobs board))) = {0..<4}
   \<and> length (cellJobs ''ed1'' 0 ''2024-01-01'' (moveJob (jobs board) ''a3'' ''ed1'' 0 0)) = 4
   \<and> set (map order (cellJobs ''ed1'' 0 ''2024-01-01'' (moveJob (jobs board) ''a3'' ''ed1'' 0 0))) = {0..<4}
   \<and> distinct (map order (cellJobs ''ed1'' 0 ''2024-01-01'' (moveJob (jobs board) ''a3'' ''ed1'' 0 0)))"
proof -
  let ?job = "mk_job ''a3'' ''ed1'' 0 ''2024-01-01'' 5 3"
  let ?C = "cellJobs ''ed1'' 0 ''2024-01-01'' (jobs board)"
  have cell: "editorId ?job = ''ed1''" "scheduledDate ?job = 0" "weekStart ?job = ''2024-01-01''"
    "job_id ?job = ''a3''"
    by (simp_all add: mk_job_def)
  have len: "length ?C = 4"
    by (simp add: example_defs cellJobs_def inCell_def)
  have ids: "distinct (map job_id (jobs board))"
    by (simp add: example_defs)
  have mem: "?job \<in> set (jobs board)"
    by (simp add: example_defs)
  have "set (map order ?C) = {0, 1, 2, 3}"
    by (simp add: example_defs cellJobs_def inCell_def)
  also have "\<dots> = {0..<(4::int)}"
    by auto
  finally have orders: "set (map order ?C) = {0..<4}" .
  have "length (cellJobs (editorId ?job) (scheduledDate ?job) (weekStart ?job)
                  (moveJob (jobs board) (job_id ?job) (editorId ?job) (scheduledDate ?job) 0))
        = length (cellJobs (editorId ?job) (scheduledDate ?job) (weekStart ?job) (jobs board))
      \<and> set (map order (cellJobs (editorId ?job) (scheduledDate ?job) (weekStart ?job)
                  (moveJob (jobs board) (job_id ?job) (editorId ?job) (scheduledDate ?job) 0)))
        = {0..<int (length (cellJobs (editorId ?job) (scheduledDate ?job) (weekStart ?job) (jobs board)))}
      \<and> distinct (map order (cellJobs (editorId ?job) (scheduledDate ?job) (weekStart ?job)
                  (moveJob (jobs board) (job_id ?job) (editorId ?job) (scheduledDate ?job) 0)))"
    using orders by (intro moveJob_same_cell_contiguous [OF ids mem refl _ _ _ refl])
       (simp_all add: cell len)
  then show ?thesis
    using ids orders by (simp add: cell len)
qed

text \<open>
  \<^bold>\<open>C2\<close> (the shift of a move inside a cell). When the destination editor and day are
  those of the moved job, the moved job takes position \<open>destOrder\<close>, and any other job
  \<open>j\<close> of the collection ends with position \<open>order j - 1\<close> if it is in the cell,
  \<open>destOrder > oldOrder\<close> and \<open>oldOrder < order j \<le> destOrder\<close>; with \<open>order j + 1\<close> if
  it is in the cell, \<open>destOrder < oldOrder\<close> and \<open>destOrder \<le> order j < oldOrder\<close>; and
  with \<open>order j\<close> in every other case.
\<close>

theorem moveJob_same_cell_shift:
  assumes "find (\<lambda>j. job_id j = jobId) prev = Some job"
    and "editorId job = destEditorId" and "scheduledDate job = destDayIndex"
    and "i < length prev"
    and "j = prev ! i" and "j' = moveJob prev jobId destEditorId destDayIndex destOrder ! i"
    and "oldOrder = order job"
  shows "(job_id j = jobId \<longrightarrow> order j' = destOrder) \<and>
         (job_id j \<noteq> jobId \<longrightarrow>
            order j' =
              (if inCell destEditorId destDayIndex (weekStart job) j
                  \<and> destOrder > oldOrder \<and> oldOrder < order j \<and> order j \<le> destOrder
               then order j - 1
               else if inCell destEditorId destDayIndex (weekStart job) j
                  \<and> destOrder < oldOrder \<and> destOrder \<le> order j \<and> order j < oldOrder
               then order j + 1
               else order j))"
  using assms by (simp add: moveJob_nth moveJob_map_def inCell_def Let_def)

text \<open>
  Moving the job at position 3 of a cell of four jobs to position 0: the jobs that were
  at 0, 1, 2 are at 1, 2, 3, and the moved job is at 0.
\<close>

theorem moveJob_same_cell_shift_witness:
  "order (moveJob cell_A ''a3'' ''ed1'' 0 0 ! 0) = 1
   \<and> map order (moveJob cell_A ''a3'' ''ed1'' 0 0) = [1, 2, 3, 0]"
proof -
  let ?job = "mk_job ''a3'' ''ed1'' 0 ''2024-01-01'' 5 3"
  have found: "find (\<lambda>j. job_id j = ''a3'') cell_A = Some ?job"
    by (simp add: cell_A_def mk_job_def)
  have cell: "editorId ?job = ''ed1''" "scheduledDate ?job = 0"
    by (simp_all add: mk_job_def)
  have len: "0 < length cell_A"
    by (simp add: cell_A_def)
  have "order (moveJob cell_A ''a3'' ''ed1'' 0 0 ! 0) = 1"
    using moveJob_same_cell_shift [OF found cell len refl refl refl, of 0]
    by (simp add: cell_A_def mk_job_def inCell_def)
  moreover have "map order (moveJob cell_A ''a3'' ''ed1'' 0 0) = [1, 2, 3, 0]"
    by (simp add: moveJob_def moveJob_map_def cell_A_def mk_job_def)
  ultimately show ?thesis by simp
qed

text \<open>
  \<^bold>\<open>C3\<close> (a move to another cell). When the destination editor or day differs from
  the moved job's, the moved job gets the destination editor, day and position; every
  other job of the destination cell (destination editor and day, week of the moved job)
  at a position \<open>\<ge> destOrder\<close> moves up by one and the others of that cell stay; and
  the jobs left in the source cell are returned as they were, so the source cell is not
  renumbered.
\<close>

theorem moveJob_cross_cell:
  assumes "find (\<lambda>j. job_id j = jobId) prev = Some job"
    and "\<not> (editorId job = destEditorId \<and> scheduledDate job = destDayIndex)"
    and "i < length prev"
    and "j = prev ! i" and "j' = moveJob prev jobId destEditorId destDayIndex destOrder ! i"
  shows "(job_id j = jobId \<longrightarrow>
            j' = j\<lparr>editorId := destEditorId, scheduledDate := destDayIndex, order := destOrder\<rparr>) \<and>
         (job_id j \<noteq> jobId \<and> inCell destEditorId destDayIndex (weekStart job) j \<longrightarrow>
            j' = j\<lparr>order := (if order j \<ge> destOrder then order j + 1 else order j)\<rparr>) \<and>
         (job_id j \<noteq> jobId \<and> inCell (editorId job) (scheduledDate job) (weekStart job) j \<longrightarrow>
            j' = j)"
  using assms by (auto simp add: moveJob_nth moveJob_map_def inCell_def Let_def)

text \<open>
  Job \<open>a1\<close> moves from \<open>cell_A\<close> to position 1 of \<open>cell_B\<close>: \<open>b1\<close> goes from 1 to 2,
  and \<open>cell_A\<close> is left with the positions 0, 2, 3.
\<close>

theorem moveJob_cross_cell_witness:
  "moveJob (jobs board) ''a1'' ''ed2'' 4 1 ! 5 = mk_job ''b1'' ''ed2'' 4 ''2024-01-01'' 6 2
   \<and> moveJob (jobs board) ''a1'' ''ed2'' 4 1 ! 1 = mk_job ''a1'' ''ed2'' 4 ''2024-01-01'' 3 1
   \<and> moveJob (jobs board) ''a1'' ''ed2'' 4 1 ! 2 = mk_job ''a2'' ''ed1'' 0 ''2024-01-01'' 4 2
   \<and> map order (moveJob (jobs board) ''a1'' ''ed2'' 4 1) = [0, 1, 2, 3, 0, 2, 0]"
proof -
  let ?job = "mk_job ''a1'' ''ed1'' 0 ''2024-01-01'' 3 1"
  let ?res = "moveJob (jobs board) ''a1'' ''ed2'' 4 1"
  have found: "find (\<lambda>j. job_id j = ''a1'') (jobs board) = Some ?job"
    by (simp add: example_defs)
  have cross: "\<not> (editorId ?job = ''ed2'' \<and> scheduledDate ?job = 4)"
    by (simp add: mk_job_def)
  have len: "5 < length (jobs board)" "1 < length (jobs board)" "2 < length (jobs board)"
    by (simp_all add: example_defs)
  have "?res ! 5 = mk_job ''b1'' ''ed2'' 4 ''2024-01-01'' 6 2"
    using moveJob_cross_cell [OF found cross len(1) refl refl, of 1]
    by (simp add: example_defs inCell_def)
  moreover have "?res ! 1 = mk_job ''a1'' ''ed2'' 4 ''2024-01-01'' 3 1"
    using moveJob_cross_cell [OF found cross len(2) refl refl, of 1]
    by (simp add: example_defs inCell_def)
  moreover have "?res ! 2 = mk_job ''a2'' ''ed1'' 0 ''2024-01-01'' 4 2"
    using moveJob_cross_cell [OF found cross len(3) refl refl, of 1]
    by (simp add: example_defs inCell_def)
  moreover have "map order ?res = [0, 1, 2, 3, 0, 2, 0]"
    by (simp add: moveJob_def moveJob_map_def example_defs)
  ultimately show ?thesis by simp
qed

text \<open>
  \<^bold>\<open>C4\<close> (unknown job id). When no job of the collection has the given id,
  \<open>moveJob\<close> returns the collection as it is, for every destination editor, day and
  position. The function has no failing branch: it is total.
\<close>

theorem moveJob_unknown_id:
  assumes "jobId \<notin> job_id ` set prev"
  shows "moveJob prev jobId destEditorId destDayIndex destOrder = prev"
proof -
  have "find (\<lambda>j. job_id j = jobId) prev = None"
    using assms by (auto simp: find_None_iff)
  then show ?thesis by (simp add: moveJob_def)
qed

text \<open>
  No job of the board has the id \<open>zz\<close>.
\<close>

theorem moveJob_unknown_id_witness:
  "''zz'' \<notin> job_id ` set (jobs board) \<and> moveJob (jobs board) ''zz'' ''ed2'' 4 0 = jobs board"
proof -
  have "''zz'' \<notin> job_id ` set (jobs board)"
    by (simp add: example_defs)
  then show ?thesis
    using moveJob_unknown_id [of "''zz''" "jobs board" "''ed2''" 4 0] by simp
qed

text \<open>
  \<^bold>\<open>C5\<close> (moving a job to where it is). For a collection with distinct job ids and a
  job of it, the move to the job's own editor, day and position returns the collection
  unchanged: every job keeps its position, editor and day, and every other field.
\<close>

theorem moveJob_same_place:
  assumes ids: "distinct (map job_id prev)" and mem: "job \<in> set prev"
  shows "moveJob prev (job_id job) (editorId job) (scheduledDate job) (order job) = prev"
proof -
  let ?f = "moveJob_map job (job_id job) (editorId job) (scheduledDate job) (order job)"
  have "find (\<lambda>j. job_id j = job_id job) prev = Some job"
    using ids mem by (rule find_first_id)
  then have "moveJob prev (job_id job) (editorId job) (scheduledDate job) (order job) = map ?f prev"
    by (rule moveJob_found)
  moreover have "?f x = x" if "x \<in> set prev" for x
  proof (cases "job_id x = job_id job")
    case True
    with ids mem that have "x = job" by (meson same_id_same_job)
    then show ?thesis by (simp add: moveJob_map_def)
  next
    case False
    then show ?thesis by (simp add: moveJob_map_def Let_def)
  qed
  ultimately show ?thesis by (simp add: map_idI)
qed

text \<open>
  Job \<open>a2\<close> of the board, moved to its own editor, day 0 and position 2.
\<close>

theorem moveJob_same_place_witness:
  "distinct (map job_id (jobs board))
   \<and> moveJob (jobs board) ''a2'' ''ed1'' 0 2 = jobs board"
proof -
  let ?job = "mk_job ''a2'' ''ed1'' 0 ''2024-01-01'' 4 2"
  have ids: "distinct (map job_id (jobs board))"
    by (simp add: example_defs)
  have mem: "?job \<in> set (jobs board)"
    by (simp add: example_defs)
  show ?thesis
    using ids moveJob_same_place [OF ids mem] by (simp add: mk_job_def)
qed

text \<open>
  \<^bold>\<open>C6\<close> (what a move leaves alone). The job at each index of the result has the id,
  title, client name, estimated hours, priority, status and week start of the job at
  that index of the input. A job other than the moved one keeps its editor and day; it
  is identical to its input counterpart whenever its position was not shifted, and in
  particular whenever it is outside the destination cell.
\<close>

theorem moveJob_frame:
  assumes "i < length prev"
    and "j = prev ! i" and "j' = moveJob prev jobId destEditorId destDayIndex destOrder ! i"
  shows "job_id j' = job_id j \<and> title j' = title j \<and> clientName j' = clientName j
         \<and> estimatedHours j' = estimatedHours j \<and> priority j' = priority j
         \<and> status j' = status j \<and> weekStart j' = weekStart j
         \<and> (job_id j \<noteq> jobId \<longrightarrow> editorId j' = editorId j \<and> scheduledDate j' = scheduledDate j)
         \<and> (job_id j \<noteq> jobId \<and> order j' = order j \<longrightarrow> j' = j)
         \<and> (job_id j \<noteq> jobId \<and> \<not> destCell prev jobId destEditorId destDayIndex j \<longrightarrow> j' = j)"
proof (cases "find (\<lambda>j. job_id j = jobId) prev")
  case None
  then show ?thesis using assms by (simp add: moveJob_def)
next
  case (Some job)
  then show ?thesis using assms
    by (simp add: moveJob_nth moveJob_map_def destCell_def inCell_def Let_def)
qed

text \<open>
  The move of \<open>a1\<close> into \<open>cell_B\<close>: the job of the other week and job \<open>a3\<close> are
  returned as they were, the moved job keeps its title and the shifted job its hours.
\<close>

theorem moveJob_frame_witness:
  "moveJob (jobs board) ''a1'' ''ed2'' 4 1 ! 6 = jobs board ! 6
   \<and> moveJob (jobs board) ''a1'' ''ed2'' 4 1 ! 3 = jobs board ! 3
   \<and> title (moveJob (jobs board) ''a1'' ''ed2'' 4 1 ! 1) = title (jobs board ! 1)
   \<and> estimatedHours (moveJob (jobs board) ''a1'' ''ed2'' 4 1 ! 5) = estimatedHours (jobs board ! 5)"
proof -
  have len: "6 < length (jobs board)" "3 < length (jobs board)" "1 < length (jobs board)"
    "5 < length (jobs board)"
    by (simp_all add: example_defs)
  have "moveJob (jobs board) ''a1'' ''ed2'' 4 1 ! 6 = jobs board ! 6"
    using moveJob_frame [OF len(1) refl refl, of "''a1''" "''ed2''" 4 1]
    by (simp add: example_defs destCell_def inCell_def)
  moreover have "moveJob (jobs board) ''a1'' ''ed2'' 4 1 ! 3 = jobs board ! 3"
    using moveJob_frame [OF len(2) refl refl, of "''a1''" "''ed2''" 4 1]
    by (simp add: example_defs destCell_def inCell_def)
  moreover have "title (moveJob (jobs board) ''a1'' ''ed2'' 4 1 ! 1) = title (jobs board ! 1)"
    using moveJob_frame [OF len(3) refl refl, of "''a1''" "''ed2''" 4 1] by simp
  moreover have "estimatedHours (moveJob (jobs board) ''a1'' ''ed2'' 4 1 ! 5)
                 = estimatedHours (jobs board ! 5)"
    using moveJob_frame [OF len(4) refl refl, of "''a1''" "''ed2''" 4 1] by simp
  ultimately show ?thesis by simp
qed

text \<open>
  \<^bold>\<open>C10\<close> (a move never leaves the week). No job's week start is changed by
  \<open>moveJob\<close>, the moved job's included, and a job of another week than the moved job's
  is returned as it was: only the moved job's own week is renumbered.
\<close>

theorem moveJob_keeps_weekStart:
  assumes "i < length prev"
    and "j = prev ! i" and "j' = moveJob prev jobId destEditorId destDayIndex destOrder ! i"
  shows "weekStart j' = weekStart j \<and>
         (\<forall>job. find (\<lambda>x. job_id x = jobId) prev = Some job \<and> job_id j \<noteq> jobId
                 \<and> weekStart j \<noteq> weekStart job \<longrightarrow> j' = j)"
proof (cases "find (\<lambda>j. job_id j = jobId) prev")
  case None
  then show ?thesis using assms by (simp add: moveJob_def)
next
  case (Some job)
  then show ?thesis using assms
    by (simp add: moveJob_nth moveJob_map_def Let_def)
qed

text \<open>
  The move of \<open>a1\<close> to the place of \<open>cell_B\<close>: it stays in its week, and the job
  that sits at that place in the following week is not touched.
\<close>

theorem moveJob_keeps_weekStart_witness:
  "weekStart (moveJob (jobs board) ''a1'' ''ed2'' 4 0 ! 1) = ''2024-01-01''
   \<and> moveJob (jobs board) ''a1'' ''ed2'' 4 0 ! 6 = mk_job ''c0'' ''ed2'' 4 ''2024-01-08'' 7 0"
proof -
  let ?job = "mk_job ''a1'' ''ed1'' 0 ''2024-01-01'' 3 1"
  have found: "find (\<lambda>j. job_id j = ''a1'') (jobs board) = Some ?job"
    by (simp add: example_defs)
  have len: "1 < length (jobs board)" "6 < length (jobs board)"
    by (simp_all add: example_defs)
  have "weekStart (moveJob (jobs board) ''a1'' ''ed2'' 4 0 ! 1) = ''2024-01-01''"
    using moveJob_keeps_weekStart [OF len(1) refl refl, of "''a1''" "''ed2''" 4 0]
    by (simp add: example_defs)
  moreover have "moveJob (jobs board) ''a1'' ''ed2'' 4 0 ! 6 = mk_job ''c0'' ''ed2'' 4 ''2024-01-08'' 7 0"
    using moveJob_keeps_weekStart [OF len(2) refl refl, of "''a1''" "''ed2''" 4 0] found
    by (simp add: example_defs)
  ultimately show ?thesis by simp
qed

section \<open>Properties of addEditor\<close>

text \<open>
  \<^bold>\<open>C7\<close> (the plan limit), as the function has it. The limit is 10 when the profile
  request returned the plan type \<^verbatim>\<open>pro\<close> and 2 in every other case (plan type
  \<^verbatim>\<open>free\<close>, any other plan type, no profile row, a failed request). With a signed-in
  user and a callback that sees the current number of editors, as the callback of the
  current render does, \<open>addEditor\<close> throws \<^verbatim>\<open>Error('PLAN_LIMIT_REACHED')\<close> exactly when
  the current number of editors is at or above the limit, and then the state is
  unchanged and no insert request has been sent. With no signed-in user it returns at
  once: nothing is thrown, nothing is inserted and no request is sent, whatever the
  number of editors. Nothing is stated of a callback kept from a render with another
  number of editors.
\<close>

theorem addEditor_plan_limit:
  assumes "r = addEditor user editors' profile_reply insert_reply editor st"
    and "limit = (if profile_reply = Reply_data ''pro'' then 10 else 2)"
  shows "(user \<noteq> None \<and> length editors' = length (editors st) \<longrightarrow>
            (outcome r = Threw (Error ''PLAN_LIMIT_REACHED'') \<longleftrightarrow> length (editors st) \<ge> limit))
         \<and> (user \<noteq> None \<and> length editors' = length (editors st) \<and> length (editors st) \<ge> limit \<longrightarrow>
              result_state r = st \<and> (\<forall>row. Insert_editor row \<notin> set (effects r)))
         \<and> (user = None \<longrightarrow> outcome r = Returned None \<and> result_state r = st \<and> effects r = [])"
proof (cases user)
  case None
  then show ?thesis using assms(1) by (simp add: addEditor_def)
next
  case (Some uid)
  have limit: "plan_limit (planType_of profile_reply) = limit"
    using assms(2) by (auto simp: plan_limit_def planType_of_def split: reply.splits)
  show ?thesis
  proof (cases "length editors' \<ge> limit")
    case True
    then show ?thesis
      using Some assms(1) limit by (auto simp add: addEditor_def addEditor_catch_def)
  next
    case False
    then show ?thesis
      using Some assms(1) limit
      by (auto simp add: addEditor_def addEditor_catch_def Let_def split: reply.splits)
  qed
qed

text \<open>
  Adding a third editor under the free plan, signed in, through the callback of the
  render that shows the two editors: the plan-limit error is thrown, the state is the
  same and the only request sent is the profile lookup.
\<close>

theorem addEditor_plan_limit_witness:
  "outcome (addEditor (Some ''u1'') (editors board) (Reply_data ''free'') (Reply_data third_row)
              third_editor board)
     = Threw (Error ''PLAN_LIMIT_REACHED'')
   \<and> result_state (addEditor (Some ''u1'') (editors board) (Reply_data ''free'')
                     (Reply_data third_row) third_editor board)
     = board
   \<and> effects (addEditor (Some ''u1'') (editors board) (Reply_data ''free'') (Reply_data third_row)
                third_editor board)
     = [Select_profile]"
proof -
  let ?r = "addEditor (Some ''u1'') (editors board) (Reply_data ''free'') (Reply_data third_row)
              third_editor board"
  have "length (editors board) = 2"
    by (simp add: board_def two_editors_def)
  then have "outcome ?r = Threw (Error ''PLAN_LIMIT_REACHED'') \<and> result_state ?r = board"
    using addEditor_plan_limit [where user = "Some ''u1''" and editors' = "editors board"
        and profile_reply = "Reply_data ''free''" and insert_reply = "Reply_data third_row"
        and editor = third_editor and st = board, OF refl refl]
    by simp
  moreover have "effects ?r = [Select_profile]"
    by (simp add: addEditor_def addEditor_catch_def planType_of_def plan_limit_def
        board_def two_editors_def)
  ultimately show ?thesis by simp
qed

text \<open>
  The statement for every call fails, in two ways. With two editors under the free plan
  and no signed-in user the count is at the limit, and \<open>addEditor\<close> returns without
  throwing. And with a signed-in user under the free plan, a callback made when there
  was one editor and called when there are two checks the one editor it captured:
  nothing is thrown, the insert request is sent and a third editor is appended.
\<close>

theorem addEditor_limit_counterexample:
  "length (editors board) \<ge> plan_limit (planType_of (Reply_data ''free''))
   \<and> outcome (addEditor None (editors board) (Reply_data ''free'') (Reply_data third_row)
                third_editor board)
       = Returned None
   \<and> outcome (addEditor (Some ''u1'') one_editor (Reply_data ''free'') (Reply_data third_row)
                third_editor board)
       = Returned (Some third_row)
   \<and> length (editors (result_state (addEditor (Some ''u1'') one_editor (Reply_data ''free'')
                                        (Reply_data third_row) third_editor board))) = 3"
  by (simp add: addEditor_def planType_of_def plan_limit_def board_def two_editors_def
      one_editor_def)

section \<open>Properties of deleteEditor\<close>

text \<open>
  \<^bold>\<open>C9\<close> (deleting an editor and the jobs), as the function has it. Unless the delete
  request is rejected, \<open>deleteEditor\<close> removes the editors with the given id from the
  editor array and leaves the job array as it is: no job is removed and no job's
  \<open>editorId\<close> changes, also for the jobs of the deleted editor. When the request is
  rejected, the state is the one that \<open>fetchData\<close> loads after the local removal.
\<close>

theorem deleteEditor_frame:
  assumes "st' = fst (deleteEditor user be delete_reply editorId' st)"
  shows "((\<forall>m. delete_reply \<noteq> Rejects m) \<longrightarrow>
            editors st' = filter (\<lambda>editor. ed_id editor \<noteq> editorId') (editors st)
            \<and> jobs st' = jobs st \<and> map editorId (jobs st') = map editorId (jobs st))
         \<and> (\<forall>m. delete_reply = Rejects m \<longrightarrow>
              st' = fst (fetchData user be
                      (st\<lparr>editors := filter (\<lambda>editor. ed_id editor \<noteq> editorId') (editors st)\<rparr>)))"
  using assms by (cases delete_reply) (simp_all add: deleteEditor_def split: prod.splits)

text \<open>
  Deleting editor \<open>ed2\<close> of the board, the request answered: editor \<open>ed1\<close> remains and
  the jobs, those of \<open>ed2\<close> among them, are the same.
\<close>

theorem deleteEditor_frame_witness:
  "editors (fst (deleteEditor (Some ''u1'') board_backend (Reply_data ()) ''ed2'' board))
     = [\<lparr>ed_id = ''ed1'', ed_name = ''Ada'', weeklyCapacity = 40\<rparr>]
   \<and> jobs (fst (deleteEditor (Some ''u1'') board_backend (Reply_data ()) ''ed2'' board)) = jobs board"
proof -
  have "\<forall>m. (Reply_data () :: unit reply) \<noteq> Rejects m"
    by simp
  with deleteEditor_frame [where user = "Some ''u1''" and be = board_backend
      and delete_reply = "Reply_data ()" and editorId' = "''ed2''" and st = board, OF refl]
  show ?thesis
    by (simp add: board_def two_editors_def)
qed

text \<open>
  The statement for every outcome of the request fails: when the request is rejected,
  the jobs are reloaded, and a job whose local \<open>editorId\<close> was \<open>ed1\<close> has the backend's
  \<open>ed2\<close> afterwards.
\<close>

theorem deleteEditor_reload_counterexample:
  "editorId (jobs reassigned_board ! 4) = ''ed1''
   \<and> editorId (jobs (fst (deleteEditor (Some ''u1'') board_backend (Rejects ''Failed to fetch'')
                             ''ed2'' reassigned_board)) ! 4) = ''ed2''
   \<and> jobs (fst (deleteEditor (Some ''u1'') board_backend (Rejects ''Failed to fetch'')
                   ''ed2'' reassigned_board)) \<noteq> jobs reassigned_board"
  by (simp add: deleteEditor_def fetchData_def board_backend_def reassigned_board_def example_defs)

section \<open>Properties of getEditorCapacity\<close>

text \<open>
  Apart from the rounding of the double operations the function is the formula of the
  specification: the jobs of the editor in the current week, capacity 40 for an unknown
  editor, and \<open>min\<close> after \<open>round\<close> for \<open>round\<close> after \<open>min\<close>. Where the sum, the
  quotient and the product are exact and the capacity of the editor is not 0, the two
  agree, as for the specification's example of capacity 40 and jobs of 10 and 15 hours.
\<close>

lemma getEditorCapacity_exact:
  assumes cap: "\<forall>editor. find (\<lambda>e. ed_id e = editorId') (editors st) = Some editor
                  \<longrightarrow> weeklyCapacity editor \<noteq> 0"
    and total: "gec_totalHours st editorId' = sum_list (map estimatedHours (gec_editorJobs st editorId'))"
    and quot: "dbl_div (gec_totalHours st editorId') (gec_weeklyCapacity st editorId')
               = gec_totalHours st editorId' / gec_weeklyCapacity st editorId'"
    and prod: "dbl_mul (gec_totalHours st editorId' / gec_weeklyCapacity st editorId') 100
               = gec_totalHours st editorId' / gec_weeklyCapacity st editorId' * 100"
  shows "getEditorCapacity st editorId' = spec_capacity st editorId'"
proof -
  have "gec_weeklyCapacity st editorId' = spec_weeklyCapacity st editorId'"
    using cap by (simp add: gec_weeklyCapacity_def spec_weeklyCapacity_def split: option.split)
  then show ?thesis
    using total quot prod
    by (simp add: getEditorCapacity_def spec_capacity_def Math_round_min mult.commute)
qed

lemma getEditorCapacity_example_63:
  "getEditorCapacity hours_10_15 ''ed1'' = 63 \<and> spec_capacity hours_10_15 ''ed1'' = 63"
  by code_simp

text \<open>
  \<^bold>\<open>C8\<close> (the weekly load percentage). The function is to return
  \<open>round (min 100 (100 * sum / capacity))\<close>, the sum being that of the estimated hours of
  the editor's jobs in the current week and the capacity the editor's, or 40. It does
  not at a tie that the quotient misses: for capacity 40 and one job of 23 hours the
  percentage is 57.5 and the formula gives 58, but the function divides first, the
  double of 23 / 40 lies below 0.575, its product with 100 is 57.49999999999999, and the
  function returns 57. Multiplying first, \<^verbatim>\<open>(100 * totalHours) / weeklyCapacity\<close>, is
  exact here and gives 58 in double arithmetic too.
\<close>

theorem getEditorCapacity_tie_at_23:
  "getEditorCapacity hours_23 ''ed1'' = 57
   \<and> spec_capacity hours_23 ''ed1'' = 58
   \<and> min 100 (Math_round (dbl_div (dbl_mul 100 (gec_totalHours hours_23 ''ed1''))
                                    (gec_weeklyCapacity hours_23 ''ed1''))) = 58"
  by code_simp

end
